theory Spec2Isabelle
  imports Complex_Main "HOL-Library.Word" "HOL-Library.Log_Nat"
begin

unbundle bit_operations_syntax

section \<open>C scalar types\<close>

text \<open>
  The accessors of \<^verbatim>\<open>ac_can.c\<close> work on \<^verbatim>\<open>uint8_t\<close> payload bytes, a
  \<^verbatim>\<open>uint64_t\<close> accumulator and \<^verbatim>\<open>int\<close> loop counters, and exchange physical
  values as \<^verbatim>\<open>float\<close>. Integers are fixed-width words; \<^verbatim>\<open>int\<close> is 32 bits wide and
  \<^verbatim>\<open>unsigned long\<close> (the type of \<^verbatim>\<open>1UL\<close>) is 64 bits wide. With a 32-bit
  \<^verbatim>\<open>unsigned long\<close> the macros below give the same results, because no accumulator of
  this file ever holds more than 16 bits.
\<close>

type_synonym uint8_t = "8 word"
type_synonym uint32_t = "32 word"
type_synonym uint64_t = "64 word"
type_synonym c_int = "32 word"

subsection \<open>Binary floating point\<close>

text \<open>
  A finite \<^verbatim>\<open>float\<close> or \<^verbatim>\<open>double\<close> is the rational number it denotes. Each
  arithmetic operation of C computes the exact result and rounds it to the nearest number of
  the target format, ties to the even significand: \<open>rne p\<close> rounds to \<open>p\<close> significant
  bits (24 for \<^verbatim>\<open>float\<close>, 53 for \<^verbatim>\<open>double\<close>). An operation on two
  \<^verbatim>\<open>float\<close> operands is rounded to \<^verbatim>\<open>float\<close>, one with a \<^verbatim>\<open>double\<close> operand
  to \<^verbatim>\<open>double\<close>. The exponent range is not bounded, so overflow to infinity and
  gradual underflow are outside the model, and so are NaN arguments; every quantity
  computed from a table entry and an in-range value is far from both ends.
\<close>

definition flog2 :: "rat \<Rightarrow> int" where
  \<comment> \<open>for \<open>x > 0\<close>: the exponent \<open>e\<close> with \<open>2 powi e \<le> x < 2 powi (e + 1)\<close>\<close>
  "flog2 x = (let (a, b) = quotient_of x; d = bitlen a - bitlen b
              in if 2 powi d \<le> x then d else d - 1)"

definition rne :: "nat \<Rightarrow> rat \<Rightarrow> rat" where
  "rne p x = (if x = 0 then 0 else
     let u = 2 powi (flog2 \<bar>x\<bar> - int p + 1);
         q = \<bar>x\<bar> / u;
         n = \<lfloor>q\<rfloor>;
         r = q - of_int n;
         m = (if r < 1 / 2 \<or> (r = 1 / 2 \<and> even n) then n else n + 1)
     in sgn x * of_int m * u)"

definition to_float :: "rat \<Rightarrow> rat" where
  "to_float = rne 24"

definition to_double :: "rat \<Rightarrow> rat" where
  "to_double = rne 53"

definition is_float :: "rat \<Rightarrow> bool" where
  "is_float v \<longleftrightarrow> to_float v = v"

definition c_round :: "rat \<Rightarrow> int" where
  \<comment> \<open>\<^verbatim>\<open>round()\<close> of \<^verbatim>\<open>math.h\<close>: nearest integer, halfway cases away from zero\<close>
  "c_round x = (if 0 \<le> x then \<lfloor>x + 1 / 2\<rfloor> else \<lceil>x - 1 / 2\<rceil>)"

text \<open>
  A numeric literal of the source is either an integer literal or a decimal literal of type
  \<^verbatim>\<open>double\<close>; the latter denotes the \<^verbatim>\<open>double\<close> nearest to its decimal text.
\<close>

datatype literal = IntLit int | DblLit rat

fun lit_val :: "literal \<Rightarrow> rat" where
  "lit_val (IntLit k) = of_int k"
| "lit_val (DblLit c) = to_double c"

section \<open>Frames and signals\<close>

text \<open>\<^verbatim>\<open>typedef struct { uint32_t id; uint8_t dlc; uint8_t data[8]; } CAN_Frame;\<close>\<close>

record CAN_Frame =
  id_f :: uint32_t
  dlc :: uint8_t
  data :: "uint8_t list"

datatype 'a ptr = NULL | Ptr 'a

text \<open>
  Every \<^verbatim>\<open>Get_X\<close>/\<^verbatim>\<open>Set_X\<close> pair of the file is the same text with eight constants
  substituted: the message identifier, the loop bound, the two constants of the position
  formulas, the scale and offset of the conversion and the two bounds of the range check.
  A \<open>signal\<close> holds the constants of one pair.
\<close>

record signal =
  message_id :: uint32_t
  bit_length :: nat
  base_byte :: int
  base_bit :: nat
  scale :: literal
  offset :: int
  min_val :: int
  max_val :: literal

section \<open>The bit macros\<close>

text \<open>
  \<^verbatim>\<open>#define GET_BIT(data, pos) (((data) >> (pos)) & 0x01)\<close>

  \<^verbatim>\<open>#define SET_BIT(data, pos, value) ((data) = ((data) & ~(1UL << (pos))) | ((value) << (pos)))\<close>

  The macros are used at two types each. A \<^verbatim>\<open>uint8_t\<close> operand is promoted to
  \<^verbatim>\<open>int\<close> before it is shifted, so \<^verbatim>\<open>GET_BIT\<close> of a payload byte at a position of
  8 or more is 0, and \<^verbatim>\<open>(value) << (pos)\<close> is an \<^verbatim>\<open>int\<close> that is converted to
  \<^verbatim>\<open>unsigned long\<close> for the disjunction. Assigning the result to a \<^verbatim>\<open>uint8_t\<close>
  keeps its low 8 bits.
\<close>

definition GET_BIT_u8 :: "uint8_t \<Rightarrow> nat \<Rightarrow> c_int" where
  "GET_BIT_u8 d pos = drop_bit pos (ucast d :: c_int) AND 1"

definition GET_BIT_u64 :: "uint64_t \<Rightarrow> nat \<Rightarrow> uint64_t" where
  "GET_BIT_u64 d pos = drop_bit pos d AND 1"

definition SET_BIT_u64 :: "uint64_t \<Rightarrow> nat \<Rightarrow> c_int \<Rightarrow> uint64_t" where
  "SET_BIT_u64 d pos v = (d AND NOT (push_bit pos 1)) OR scast (push_bit pos v)"

definition SET_BIT_u8 :: "uint8_t \<Rightarrow> nat \<Rightarrow> uint8_t \<Rightarrow> uint8_t" where
  "SET_BIT_u8 d pos v =
     ucast (((ucast d :: uint64_t) AND NOT (push_bit pos 1)) OR scast (push_bit pos (ucast v :: c_int)))"

section \<open>The accessor template\<close>

text \<open>
  The loop of a getter, for \<^verbatim>\<open>i\<close> from 0 below the bit length:

  \<^verbatim>\<open>int byte_pos = B - (i / 8); int bit_pos = b + (i % 8);\<close>
  \<^verbatim>\<open>SET_BIT(raw_value, i, GET_BIT(frame->data[byte_pos], bit_pos));\<close>
\<close>

definition get_step :: "signal \<Rightarrow> uint8_t list \<Rightarrow> nat \<Rightarrow> uint64_t \<Rightarrow> uint64_t" where
  "get_step s d i raw_value =
     (let byte_pos = base_byte s - int (i div 8);
          bit_pos = base_bit s + i mod 8
      in SET_BIT_u64 raw_value i (GET_BIT_u8 (d ! nat byte_pos) bit_pos))"

definition get_loop :: "signal \<Rightarrow> uint8_t list \<Rightarrow> uint64_t" where
  "get_loop s d = fold (get_step s d) [0..<bit_length s] 0"

text \<open>
  The loop of a setter:

  \<^verbatim>\<open>uint8_t bit_val = GET_BIT(raw_value, i); SET_BIT(frame->data[byte_pos], bit_pos, bit_val);\<close>
\<close>

definition set_step :: "signal \<Rightarrow> uint64_t \<Rightarrow> nat \<Rightarrow> uint8_t list \<Rightarrow> uint8_t list" where
  "set_step s raw_value i d =
     (let byte_pos = base_byte s - int (i div 8);
          bit_pos = base_bit s + i mod 8;
          bit_val = (ucast (GET_BIT_u64 raw_value i) :: uint8_t)
      in d[nat byte_pos := SET_BIT_u8 (d ! nat byte_pos) bit_pos bit_val])"

definition set_loop :: "signal \<Rightarrow> uint64_t \<Rightarrow> uint8_t list \<Rightarrow> uint8_t list" where
  "set_loop s raw_value d = fold (set_step s raw_value) [0..<bit_length s] d"

text \<open>
  \<^verbatim>\<open>*value = (raw_value * scale) + offset;\<close> With an integer scale the right-hand side is
  computed in \<^verbatim>\<open>uint64_t\<close> (the offset is converted and the sum wraps) and then converted
  to \<^verbatim>\<open>float\<close>; with a decimal scale it is computed in \<^verbatim>\<open>double\<close>.
\<close>

definition physical_value :: "signal \<Rightarrow> uint64_t \<Rightarrow> rat" where
  "physical_value s raw_value =
     (case scale s of
        IntLit k \<Rightarrow> to_float (of_int (uint (raw_value * word_of_int k + word_of_int (offset s))))
      | DblLit c \<Rightarrow>
          to_float (to_double (to_double (to_double (of_int (uint raw_value)) * to_double c)
                               + of_int (offset s))))"

text \<open>
  \<^verbatim>\<open>if (*value < min || *value > max)\<close>, also the first statement of every setter.
\<close>

definition out_of_range :: "signal \<Rightarrow> rat \<Rightarrow> bool" where
  "out_of_range s v \<longleftrightarrow> v < of_int (min_val s) \<or> v > lit_val (max_val s)"

text \<open>
  A getter in the release build (\<^verbatim>\<open>ERROR_TRAP\<close> returns false). The second argument says
  whether the output pointer is non-null. The result is the returned flag and the value
  stored through the output pointer, if one was stored.
\<close>

definition Get_signal :: "signal \<Rightarrow> CAN_Frame ptr \<Rightarrow> bool \<Rightarrow> bool \<times> rat option" where
  "Get_signal s frame value_ptr =
     (case frame of
        NULL \<Rightarrow> (False, None)
      | Ptr f \<Rightarrow>
          if \<not> value_ptr then (False, None)
          else if id_f f \<noteq> message_id s then (False, None)
          else let raw_value = get_loop s (data f);
                   v = physical_value s raw_value
               in if out_of_range s v then (False, Some v) else (True, Some v))"

text \<open>
  \<^verbatim>\<open>uint64_t raw_value = (uint64_t)round((value - offset) / scale);\<close> The difference is
  a \<^verbatim>\<open>float\<close>; the quotient is a \<^verbatim>\<open>float\<close> for an integer scale and a
  \<^verbatim>\<open>double\<close> for a decimal one.
\<close>

definition raw_of_value :: "signal \<Rightarrow> rat \<Rightarrow> uint64_t" where
  "raw_of_value s v =
     (let diff = to_float (v - of_int (offset s))
      in word_of_int (c_round (case scale s of
                                 IntLit k \<Rightarrow> to_float (diff / of_int k)
                               | DblLit c \<Rightarrow> to_double (diff / to_double c))))"

text \<open>
  A setter: the returned flag and the frame after the call. The frame pointer is not checked
  by the source and is taken to be valid. The value is the \<^verbatim>\<open>float\<close> that the
  function receives: a call whose argument is the number \<open>x\<close> passes \<open>to_float x\<close>.
\<close>

definition Set_signal :: "signal \<Rightarrow> CAN_Frame \<Rightarrow> rat \<Rightarrow> bool \<times> CAN_Frame" where
  "Set_signal s f v =
     (if out_of_range s v then (False, f)
      else (True, f\<lparr>data := set_loop s (raw_of_value s v) (data f),
                      id_f := message_id s, dlc := 8\<rparr>))"

section \<open>The signal table\<close>

text \<open>
  One entry for each \<^verbatim>\<open>Get_X\<close>/\<^verbatim>\<open>Set_X\<close> pair of \<^verbatim>\<open>ac_can.c\<close>, in the order
  of the file: the identifier compared and assigned, the loop bound, the constants of
  \<^verbatim>\<open>byte_pos\<close> and \<^verbatim>\<open>bit_pos\<close>, the scale and offset as written in the conversion,
  and the bounds as written in the range check. Getter and setter of a pair use the same
  eight constants.
\<close>

definition EMS3_F_EngineSpeed :: signal where
  \<comment> \<open>\<^verbatim>\<open>Get_EMS3_F_EngineSpeed\<close>, \<^verbatim>\<open>Set_EMS3_F_EngineSpeed\<close>: lines 27 to 96\<close>
  "EMS3_F_EngineSpeed = \<lparr>message_id = 0x120, bit_length = 1, base_byte = 1, base_bit = 6,
     scale = IntLit 1, offset = 0, min_val = 0, max_val = IntLit 1\<rparr>"

definition EMS3_N_EngineSpeed :: signal where
  \<comment> \<open>\<^verbatim>\<open>Get_EMS3_N_EngineSpeed\<close>, \<^verbatim>\<open>Set_EMS3_N_EngineSpeed\<close>: lines 106 to 175\<close>
  "EMS3_N_EngineSpeed = \<lparr>message_id = 0x120, bit_length = 16, base_byte = 4, base_bit = 7,
     scale = DblLit 0.25, offset = 0, min_val = 0, max_val = DblLit 16383.75\<rparr>"

definition BR1_N_VehicleSpeed :: signal where
  \<comment> \<open>\<^verbatim>\<open>Get_BR1_N_VehicleSpeed\<close>, \<^verbatim>\<open>Set_BR1_N_VehicleSpeed\<close>: lines 185 to 254\<close>
  "BR1_N_VehicleSpeed = \<lparr>message_id = 0x130, bit_length = 15, base_byte = 4, base_bit = 6,
     scale = DblLit 0.01, offset = 0, min_val = 0, max_val = DblLit 327.66\<rparr>"

definition PEPS1_St_RemoteControlSt :: signal where
  \<comment> \<open>\<^verbatim>\<open>Get_PEPS1_St_RemoteControlSt\<close>, \<^verbatim>\<open>Set_PEPS1_St_RemoteControlSt\<close>: lines 264 to 333\<close>
  "PEPS1_St_RemoteControlSt = \<lparr>message_id = 0x166, bit_length = 1, base_byte = 7, base_bit = 5,
     scale = IntLit 1, offset = 0, min_val = 0, max_val = IntLit 1\<rparr>"

definition EMS2_St_ACON :: signal where
  \<comment> \<open>\<^verbatim>\<open>Get_EMS2_St_ACON\<close>, \<^verbatim>\<open>Set_EMS2_St_ACON\<close>: lines 343 to 412\<close>
  "EMS2_St_ACON = \<lparr>message_id = 0x320, bit_length = 1, base_byte = 1, base_bit = 5,
     scale = IntLit 1, offset = 0, min_val = 0, max_val = IntLit 1\<rparr>"

definition EMS2_F_EngineTemp :: signal where
  \<comment> \<open>\<^verbatim>\<open>Get_EMS2_F_EngineTemp\<close>, \<^verbatim>\<open>Set_EMS2_F_EngineTemp\<close>: lines 422 to 491\<close>
  "EMS2_F_EngineTemp = \<lparr>message_id = 0x320, bit_length = 1, base_byte = 1, base_bit = 7,
     scale = IntLit 1, offset = 0, min_val = 0, max_val = IntLit 1\<rparr>"

definition EMS2_N_EngineTemp :: signal where
  \<comment> \<open>\<^verbatim>\<open>Get_EMS2_N_EngineTemp\<close>, \<^verbatim>\<open>Set_EMS2_N_EngineTemp\<close>: lines 501 to 570\<close>
  "EMS2_N_EngineTemp = \<lparr>message_id = 0x320, bit_length = 8, base_byte = 2, base_bit = 7,
     scale = DblLit 0.75, offset = (-48), min_val = (-48), max_val = DblLit 142.5\<rparr>"

definition EMS11_N_SoakTime :: signal where
  \<comment> \<open>\<^verbatim>\<open>Get_EMS11_N_SoakTime\<close>, \<^verbatim>\<open>Set_EMS11_N_SoakTime\<close>: lines 580 to 649\<close>
  "EMS11_N_SoakTime = \<lparr>message_id = 0x322, bit_length = 16, base_byte = 2, base_bit = 7,
     scale = IntLit 1, offset = 0, min_val = 0, max_val = IntLit 2047\<rparr>"

definition TCM1_N_SLP :: signal where
  \<comment> \<open>\<^verbatim>\<open>Get_TCM1_N_SLP\<close>, \<^verbatim>\<open>Set_TCM1_N_SLP\<close>: lines 659 to 728\<close>
  "TCM1_N_SLP = \<lparr>message_id = 0x326, bit_length = 4, base_byte = 2, base_bit = 7,
     scale = IntLit 1, offset = 0, min_val = 0, max_val = IntLit 15\<rparr>"

definition AUDIO7_St_FlowModeVoiceControl :: signal where
  \<comment> \<open>\<^verbatim>\<open>Get_AUDIO7_St_FlowModeVoiceControl\<close>, \<^verbatim>\<open>Set_AUDIO7_St_FlowModeVoiceControl\<close>: lines 738 to 807\<close>
  "AUDIO7_St_FlowModeVoiceControl = \<lparr>message_id = 0x347, bit_length = 3, base_byte = 2, base_bit = 2,
     scale = IntLit 1, offset = 0, min_val = 0, max_val = IntLit 7\<rparr>"

definition AUDIO7_St_SetTempVoiceControl_L :: signal where
  \<comment> \<open>\<^verbatim>\<open>Get_AUDIO7_St_SetTempVoiceControl_L\<close>, \<^verbatim>\<open>Set_AUDIO7_St_SetTempVoiceControl_L\<close>: lines 817 to 886\<close>
  "AUDIO7_St_SetTempVoiceControl_L = \<lparr>message_id = 0x347, bit_length = 5, base_byte = 2, base_bit = 7,
     scale = DblLit 0.5, offset = 18, min_val = 18, max_val = IntLit 32\<rparr>"

definition AUDIO7_S_FrontDefrostVoiceControl :: signal where
  \<comment> \<open>\<^verbatim>\<open>Get_AUDIO7_S_FrontDefrostVoiceControl\<close>, \<^verbatim>\<open>Set_AUDIO7_S_FrontDefrostVoiceControl\<close>: lines 896 to 965\<close>
  "AUDIO7_S_FrontDefrostVoiceControl = \<lparr>message_id = 0x347, bit_length = 2, base_byte = 3, base_bit = 4,
     scale = IntLit 1, offset = 0, min_val = 0, max_val = IntLit 3\<rparr>"

definition AUDIO7_S_AutoVoiceControl :: signal where
  \<comment> \<open>\<^verbatim>\<open>Get_AUDIO7_S_AutoVoiceControl\<close>, \<^verbatim>\<open>Set_AUDIO7_S_AutoVoiceControl\<close>: lines 975 to 1044\<close>
  "AUDIO7_S_AutoVoiceControl = \<lparr>message_id = 0x347, bit_length = 2, base_byte = 3, base_bit = 6,
     scale = IntLit 1, offset = 0, min_val = 0, max_val = IntLit 3\<rparr>"

definition AUDIO7_S_AirCirculateVoiceControl :: signal where
  \<comment> \<open>\<^verbatim>\<open>Get_AUDIO7_S_AirCirculateVoiceControl\<close>, \<^verbatim>\<open>Set_AUDIO7_S_AirCirculateVoiceControl\<close>: lines 1054 to 1123\<close>
  "AUDIO7_S_AirCirculateVoiceControl = \<lparr>message_id = 0x347, bit_length = 2, base_byte = 4, base_bit = 1,
     scale = IntLit 1, offset = 0, min_val = 0, max_val = IntLit 3\<rparr>"

definition AUDIO7_S_ACCompresSwitchVoiceControl :: signal where
  \<comment> \<open>\<^verbatim>\<open>Get_AUDIO7_S_ACCompresSwitchVoiceControl\<close>, \<^verbatim>\<open>Set_AUDIO7_S_ACCompresSwitchVoiceControl\<close>: lines 1133 to 1202\<close>
  "AUDIO7_S_ACCompresSwitchVoiceControl = \<lparr>message_id = 0x347, bit_length = 2, base_byte = 4, base_bit = 3,
     scale = IntLit 1, offset = 0, min_val = 0, max_val = IntLit 3\<rparr>"

definition AUDIO7_S_CLMWorkVoiceControl :: signal where
  \<comment> \<open>\<^verbatim>\<open>Get_AUDIO7_S_CLMWorkVoiceControl\<close>, \<^verbatim>\<open>Set_AUDIO7_S_CLMWorkVoiceControl\<close>: lines 1212 to 1281\<close>
  "AUDIO7_S_CLMWorkVoiceControl = \<lparr>message_id = 0x347, bit_length = 2, base_byte = 4, base_bit = 5,
     scale = IntLit 1, offset = 0, min_val = 0, max_val = IntLit 3\<rparr>"

definition AUDIO7_S_SYNC :: signal where
  \<comment> \<open>\<^verbatim>\<open>Get_AUDIO7_S_SYNC\<close>, \<^verbatim>\<open>Set_AUDIO7_S_SYNC\<close>: lines 1291 to 1360\<close>
  "AUDIO7_S_SYNC = \<lparr>message_id = 0x347, bit_length = 2, base_byte = 4, base_bit = 7,
     scale = IntLit 1, offset = 0, min_val = 0, max_val = IntLit 3\<rparr>"

definition AUDIO7_St_BlowerSpdSetVoiceControl :: signal where
  \<comment> \<open>\<^verbatim>\<open>Get_AUDIO7_St_BlowerSpdSetVoiceControl\<close>, \<^verbatim>\<open>Set_AUDIO7_St_BlowerSpdSetVoiceControl\<close>: lines 1370 to 1439\<close>
  "AUDIO7_St_BlowerSpdSetVoiceControl = \<lparr>message_id = 0x347, bit_length = 4, base_byte = 5, base_bit = 3,
     scale = IntLit 1, offset = 0, min_val = 0, max_val = IntLit 15\<rparr>"

definition AUDIO7_S_RearDefrostVoiceControl :: signal where
  \<comment> \<open>\<^verbatim>\<open>Get_AUDIO7_S_RearDefrostVoiceControl\<close>, \<^verbatim>\<open>Set_AUDIO7_S_RearDefrostVoiceControl\<close>: lines 1449 to 1518\<close>
  "AUDIO7_S_RearDefrostVoiceControl = \<lparr>message_id = 0x347, bit_length = 2, base_byte = 6, base_bit = 1,
     scale = IntLit 1, offset = 0, min_val = 0, max_val = IntLit 3\<rparr>"

definition AUDIO7_St_SetTempVoiceControl_R :: signal where
  \<comment> \<open>\<^verbatim>\<open>Get_AUDIO7_St_SetTempVoiceControl_R\<close>, \<^verbatim>\<open>Set_AUDIO7_St_SetTempVoiceControl_R\<close>: lines 1528 to 1597\<close>
  "AUDIO7_St_SetTempVoiceControl_R = \<lparr>message_id = 0x347, bit_length = 5, base_byte = 6, base_bit = 6,
     scale = DblLit 0.5, offset = 18, min_val = 18, max_val = IntLit 32\<rparr>"

definition BCM1_St_ReverseGear :: signal where
  \<comment> \<open>\<^verbatim>\<open>Get_BCM1_St_ReverseGear\<close>, \<^verbatim>\<open>Set_BCM1_St_ReverseGear\<close>: lines 1607 to 1676\<close>
  "BCM1_St_ReverseGear = \<lparr>message_id = 0x363, bit_length = 1, base_byte = 4, base_bit = 4,
     scale = IntLit 1, offset = 0, min_val = 0, max_val = IntLit 1\<rparr>"

definition BCM1_F_ReverseGear :: signal where
  \<comment> \<open>\<^verbatim>\<open>Get_BCM1_F_ReverseGear\<close>, \<^verbatim>\<open>Set_BCM1_F_ReverseGear\<close>: lines 1686 to 1755\<close>
  "BCM1_F_ReverseGear = \<lparr>message_id = 0x363, bit_length = 1, base_byte = 4, base_bit = 5,
     scale = IntLit 1, offset = 0, min_val = 0, max_val = IntLit 1\<rparr>"

definition BCM1_N_PM25Value :: signal where
  \<comment> \<open>\<^verbatim>\<open>Get_BCM1_N_PM25Value\<close>, \<^verbatim>\<open>Set_BCM1_N_PM25Value\<close>: lines 1765 to 1834\<close>
  "BCM1_N_PM25Value = \<lparr>message_id = 0x363, bit_length = 10, base_byte = 6, base_bit = 1,
     scale = IntLit 1, offset = 0, min_val = 0, max_val = IntLit 999\<rparr>"

definition AC1_Checksum :: signal where
  \<comment> \<open>\<^verbatim>\<open>Get_AC1_Checksum\<close>, \<^verbatim>\<open>Set_AC1_Checksum\<close>: lines 1844 to 1913\<close>
  "AC1_Checksum = \<lparr>message_id = 0x36C, bit_length = 8, base_byte = 0, base_bit = 7,
     scale = IntLit 1, offset = 0, min_val = 0, max_val = IntLit 255\<rparr>"

definition AC1_S_AC :: signal where
  \<comment> \<open>\<^verbatim>\<open>Get_AC1_S_AC\<close>, \<^verbatim>\<open>Set_AC1_S_AC\<close>: lines 1923 to 1992\<close>
  "AC1_S_AC = \<lparr>message_id = 0x36C, bit_length = 1, base_byte = 1, base_bit = 7,
     scale = IntLit 1, offset = 0, min_val = 0, max_val = IntLit 1\<rparr>"

definition AC1_St_Blower :: signal where
  \<comment> \<open>\<^verbatim>\<open>Get_AC1_St_Blower\<close>, \<^verbatim>\<open>Set_AC1_St_Blower\<close>: lines 2002 to 2071\<close>
  "AC1_St_Blower = \<lparr>message_id = 0x36C, bit_length = 4, base_byte = 4, base_bit = 3,
     scale = IntLit 1, offset = 0, min_val = 0, max_val = IntLit 15\<rparr>"

definition AC1_H_L_PRESS_Sta :: signal where
  \<comment> \<open>\<^verbatim>\<open>Get_AC1_H_L_PRESS_Sta\<close>, \<^verbatim>\<open>Set_AC1_H_L_PRESS_Sta\<close>: lines 2081 to 2150\<close>
  "AC1_H_L_PRESS_Sta = \<lparr>message_id = 0x36C, bit_length = 2, base_byte = 5, base_bit = 1,
     scale = IntLit 1, offset = 0, min_val = 0, max_val = IntLit 3\<rparr>"

definition AC1_St_AirCirculate :: signal where
  \<comment> \<open>\<^verbatim>\<open>Get_AC1_St_AirCirculate\<close>, \<^verbatim>\<open>Set_AC1_St_AirCirculate\<close>: lines 2160 to 2229\<close>
  "AC1_St_AirCirculate = \<lparr>message_id = 0x36C, bit_length = 2, base_byte = 6, base_bit = 4,
     scale = IntLit 1, offset = 0, min_val = 0, max_val = IntLit 3\<rparr>"

definition AC1_MID_PRESS_Status :: signal where
  \<comment> \<open>\<^verbatim>\<open>Get_AC1_MID_PRESS_Status\<close>, \<^verbatim>\<open>Set_AC1_MID_PRESS_Status\<close>: lines 2239 to 2308\<close>
  "AC1_MID_PRESS_Status = \<lparr>message_id = 0x36C, bit_length = 1, base_byte = 6, base_bit = 7,
     scale = IntLit 1, offset = 0, min_val = 0, max_val = IntLit 1\<rparr>"

definition AC1_St_FlowMode :: signal where
  \<comment> \<open>\<^verbatim>\<open>Get_AC1_St_FlowMode\<close>, \<^verbatim>\<open>Set_AC1_St_FlowMode\<close>: lines 2318 to 2387\<close>
  "AC1_St_FlowMode = \<lparr>message_id = 0x36C, bit_length = 3, base_byte = 7, base_bit = 2,
     scale = IntLit 1, offset = 0, min_val = 0, max_val = IntLit 7\<rparr>"

definition AUDIO4_S_PM25AirClean :: signal where
  \<comment> \<open>\<^verbatim>\<open>Get_AUDIO4_S_PM25AirClean\<close>, \<^verbatim>\<open>Set_AUDIO4_S_PM25AirClean\<close>: lines 2397 to 2466\<close>
  "AUDIO4_S_PM25AirClean = \<lparr>message_id = 0x374, bit_length = 2, base_byte = 1, base_bit = 5,
     scale = IntLit 1, offset = 0, min_val = 0, max_val = IntLit 3\<rparr>"

definition AUDIO4_S_SetTempDown_R :: signal where
  \<comment> \<open>\<^verbatim>\<open>Get_AUDIO4_S_SetTempDown_R\<close>, \<^verbatim>\<open>Set_AUDIO4_S_SetTempDown_R\<close>: lines 2476 to 2545\<close>
  "AUDIO4_S_SetTempDown_R = \<lparr>message_id = 0x374, bit_length = 1, base_byte = 1, base_bit = 7,
     scale = IntLit 1, offset = 0, min_val = 0, max_val = IntLit 1\<rparr>"

definition AUDIO4_S_SetTempUp_L :: signal where
  \<comment> \<open>\<^verbatim>\<open>Get_AUDIO4_S_SetTempUp_L\<close>, \<^verbatim>\<open>Set_AUDIO4_S_SetTempUp_L\<close>: lines 2555 to 2624\<close>
  "AUDIO4_S_SetTempUp_L = \<lparr>message_id = 0x374, bit_length = 1, base_byte = 2, base_bit = 0,
     scale = IntLit 1, offset = 0, min_val = 0, max_val = IntLit 1\<rparr>"

definition AUDIO4_S_SetTempDown_L :: signal where
  \<comment> \<open>\<^verbatim>\<open>Get_AUDIO4_S_SetTempDown_L\<close>, \<^verbatim>\<open>Set_AUDIO4_S_SetTempDown_L\<close>: lines 2634 to 2703\<close>
  "AUDIO4_S_SetTempDown_L = \<lparr>message_id = 0x374, bit_length = 1, base_byte = 2, base_bit = 1,
     scale = IntLit 1, offset = 0, min_val = 0, max_val = IntLit 1\<rparr>"

definition AUDIO4_S_SYNC :: signal where
  \<comment> \<open>\<^verbatim>\<open>Get_AUDIO4_S_SYNC\<close>, \<^verbatim>\<open>Set_AUDIO4_S_SYNC\<close>: lines 2713 to 2782\<close>
  "AUDIO4_S_SYNC = \<lparr>message_id = 0x374, bit_length = 1, base_byte = 2, base_bit = 2,
     scale = IntLit 1, offset = 0, min_val = 0, max_val = IntLit 1\<rparr>"

definition AUDIO4_St_SetTemp_L :: signal where
  \<comment> \<open>\<^verbatim>\<open>Get_AUDIO4_St_SetTemp_L\<close>, \<^verbatim>\<open>Set_AUDIO4_St_SetTemp_L\<close>: lines 2792 to 2861\<close>
  "AUDIO4_St_SetTemp_L = \<lparr>message_id = 0x374, bit_length = 5, base_byte = 2, base_bit = 7,
     scale = DblLit 0.5, offset = 18, min_val = 18, max_val = IntLit 32\<rparr>"

definition AUDIO4_S_TempLevelElectricAC :: signal where
  \<comment> \<open>\<^verbatim>\<open>Get_AUDIO4_S_TempLevelElectricAC\<close>, \<^verbatim>\<open>Set_AUDIO4_S_TempLevelElectricAC\<close>: lines 2871 to 2940\<close>
  "AUDIO4_S_TempLevelElectricAC = \<lparr>message_id = 0x374, bit_length = 5, base_byte = 3, base_bit = 5,
     scale = IntLit 1, offset = 0, min_val = 0, max_val = IntLit 16\<rparr>"

definition AUDIO4_St_SetBlower :: signal where
  \<comment> \<open>\<^verbatim>\<open>Get_AUDIO4_St_SetBlower\<close>, \<^verbatim>\<open>Set_AUDIO4_St_SetBlower\<close>: lines 2950 to 3019\<close>
  "AUDIO4_St_SetBlower = \<lparr>message_id = 0x374, bit_length = 4, base_byte = 4, base_bit = 5,
     scale = IntLit 1, offset = 0, min_val = 0, max_val = IntLit 15\<rparr>"

definition AUDIO4_S_NegativeIon :: signal where
  \<comment> \<open>\<^verbatim>\<open>Get_AUDIO4_S_NegativeIon\<close>, \<^verbatim>\<open>Set_AUDIO4_S_NegativeIon\<close>: lines 3029 to 3098\<close>
  "AUDIO4_S_NegativeIon = \<lparr>message_id = 0x374, bit_length = 1, base_byte = 5, base_bit = 1,
     scale = IntLit 1, offset = 0, min_val = 0, max_val = IntLit 1\<rparr>"

definition AUDIO4_S_Auto :: signal where
  \<comment> \<open>\<^verbatim>\<open>Get_AUDIO4_S_Auto\<close>, \<^verbatim>\<open>Set_AUDIO4_S_Auto\<close>: lines 3108 to 3177\<close>
  "AUDIO4_S_Auto = \<lparr>message_id = 0x374, bit_length = 1, base_byte = 5, base_bit = 2,
     scale = IntLit 1, offset = 0, min_val = 0, max_val = IntLit 1\<rparr>"

definition AUDIO4_S_AirCirculate :: signal where
  \<comment> \<open>\<^verbatim>\<open>Get_AUDIO4_S_AirCirculate\<close>, \<^verbatim>\<open>Set_AUDIO4_S_AirCirculate\<close>: lines 3187 to 3256\<close>
  "AUDIO4_S_AirCirculate = \<lparr>message_id = 0x374, bit_length = 1, base_byte = 5, base_bit = 3,
     scale = IntLit 1, offset = 0, min_val = 0, max_val = IntLit 1\<rparr>"

definition AUDIO4_S_ACCompresSwitch :: signal where
  \<comment> \<open>\<^verbatim>\<open>Get_AUDIO4_S_ACCompresSwitch\<close>, \<^verbatim>\<open>Set_AUDIO4_S_ACCompresSwitch\<close>: lines 3266 to 3335\<close>
  "AUDIO4_S_ACCompresSwitch = \<lparr>message_id = 0x374, bit_length = 1, base_byte = 5, base_bit = 5,
     scale = IntLit 1, offset = 0, min_val = 0, max_val = IntLit 1\<rparr>"

definition AUDIO4_S_CLMOFF :: signal where
  \<comment> \<open>\<^verbatim>\<open>Get_AUDIO4_S_CLMOFF\<close>, \<^verbatim>\<open>Set_AUDIO4_S_CLMOFF\<close>: lines 3345 to 3414\<close>
  "AUDIO4_S_CLMOFF = \<lparr>message_id = 0x374, bit_length = 1, base_byte = 5, base_bit = 6,
     scale = IntLit 1, offset = 0, min_val = 0, max_val = IntLit 1\<rparr>"

definition AUDIO4_S_RearDefrost :: signal where
  \<comment> \<open>\<^verbatim>\<open>Get_AUDIO4_S_RearDefrost\<close>, \<^verbatim>\<open>Set_AUDIO4_S_RearDefrost\<close>: lines 3424 to 3493\<close>
  "AUDIO4_S_RearDefrost = \<lparr>message_id = 0x374, bit_length = 1, base_byte = 6, base_bit = 2,
     scale = IntLit 1, offset = 0, min_val = 0, max_val = IntLit 1\<rparr>"

definition AUDIO4_S_FRMPositionSet :: signal where
  \<comment> \<open>\<^verbatim>\<open>Get_AUDIO4_S_FRMPositionSet\<close>, \<^verbatim>\<open>Set_AUDIO4_S_FRMPositionSet\<close>: lines 3503 to 3572\<close>
  "AUDIO4_S_FRMPositionSet = \<lparr>message_id = 0x374, bit_length = 4, base_byte = 6, base_bit = 6,
     scale = IntLit 1, offset = 0, min_val = 0, max_val = IntLit 15\<rparr>"

definition AC2_Checksum :: signal where
  \<comment> \<open>\<^verbatim>\<open>Get_AC2_Checksum\<close>, \<^verbatim>\<open>Set_AC2_Checksum\<close>: lines 3582 to 3651\<close>
  "AC2_Checksum = \<lparr>message_id = 0x46C, bit_length = 8, base_byte = 0, base_bit = 7,
     scale = IntLit 1, offset = 0, min_val = 0, max_val = IntLit 255\<rparr>"

definition AC2_N_InsideCarTemp :: signal where
  \<comment> \<open>\<^verbatim>\<open>Get_AC2_N_InsideCarTemp\<close>, \<^verbatim>\<open>Set_AC2_N_InsideCarTemp\<close>: lines 3661 to 3730\<close>
  "AC2_N_InsideCarTemp = \<lparr>message_id = 0x46C, bit_length = 8, base_byte = 2, base_bit = 7,
     scale = DblLit 0.5, offset = (-50), min_val = (-50), max_val = IntLit 77\<rparr>"

definition AC2_N_EnvironmentTemp :: signal where
  \<comment> \<open>\<^verbatim>\<open>Get_AC2_N_EnvironmentTemp\<close>, \<^verbatim>\<open>Set_AC2_N_EnvironmentTemp\<close>: lines 3740 to 3809\<close>
  "AC2_N_EnvironmentTemp = \<lparr>message_id = 0x46C, bit_length = 8, base_byte = 3, base_bit = 7,
     scale = DblLit 0.5, offset = (-50), min_val = (-50), max_val = IntLit 77\<rparr>"

definition AC2_St_SetTempAutomaticAC_L :: signal where
  \<comment> \<open>\<^verbatim>\<open>Get_AC2_St_SetTempAutomaticAC_L\<close>, \<^verbatim>\<open>Set_AC2_St_SetTempAutomaticAC_L\<close>: lines 3819 to 3888\<close>
  "AC2_St_SetTempAutomaticAC_L = \<lparr>message_id = 0x46C, bit_length = 5, base_byte = 5, base_bit = 4,
     scale = DblLit 0.5, offset = 18, min_val = 18, max_val = IntLit 32\<rparr>"

definition AC2_St_TempLevelElectricAC :: signal where
  \<comment> \<open>\<^verbatim>\<open>Get_AC2_St_TempLevelElectricAC\<close>, \<^verbatim>\<open>Set_AC2_St_TempLevelElectricAC\<close>: lines 3898 to 3967\<close>
  "AC2_St_TempLevelElectricAC = \<lparr>message_id = 0x46C, bit_length = 5, base_byte = 6, base_bit = 4,
     scale = IntLit 1, offset = 0, min_val = 0, max_val = IntLit 16\<rparr>"

definition AC2_St_FLSeatHeating :: signal where
  \<comment> \<open>\<^verbatim>\<open>Get_AC2_St_FLSeatHeating\<close>, \<^verbatim>\<open>Set_AC2_St_FLSeatHeating\<close>: lines 3977 to 4046\<close>
  "AC2_St_FLSeatHeating = \<lparr>message_id = 0x46C, bit_length = 3, base_byte = 7, base_bit = 2,
     scale = IntLit 1, offset = 0, min_val = 0, max_val = IntLit 7\<rparr>"

definition AC2_St_RemoteControl :: signal where
  \<comment> \<open>\<^verbatim>\<open>Get_AC2_St_RemoteControl\<close>, \<^verbatim>\<open>Set_AC2_St_RemoteControl\<close>: lines 4056 to 4125\<close>
  "AC2_St_RemoteControl = \<lparr>message_id = 0x46C, bit_length = 1, base_byte = 7, base_bit = 7,
     scale = IntLit 1, offset = 0, min_val = 0, max_val = IntLit 1\<rparr>"

definition TBOX1_St_FrontDefrost :: signal where
  \<comment> \<open>\<^verbatim>\<open>Get_TBOX1_St_FrontDefrost\<close>, \<^verbatim>\<open>Set_TBOX1_St_FrontDefrost\<close>: lines 4135 to 4204\<close>
  "TBOX1_St_FrontDefrost = \<lparr>message_id = 0x478, bit_length = 2, base_byte = 1, base_bit = 5,
     scale = IntLit 1, offset = 0, min_val = 0, max_val = IntLit 3\<rparr>"

definition TBOX1_St_CLM :: signal where
  \<comment> \<open>\<^verbatim>\<open>Get_TBOX1_St_CLM\<close>, \<^verbatim>\<open>Set_TBOX1_St_CLM\<close>: lines 4214 to 4283\<close>
  "TBOX1_St_CLM = \<lparr>message_id = 0x478, bit_length = 2, base_byte = 2, base_bit = 1,
     scale = IntLit 1, offset = 0, min_val = 0, max_val = IntLit 2\<rparr>"

definition TBOX1_St_ACSetTemp :: signal where
  \<comment> \<open>\<^verbatim>\<open>Get_TBOX1_St_ACSetTemp\<close>, \<^verbatim>\<open>Set_TBOX1_St_ACSetTemp\<close>: lines 4293 to 4362\<close>
  "TBOX1_St_ACSetTemp = \<lparr>message_id = 0x478, bit_length = 5, base_byte = 4, base_bit = 7,
     scale = DblLit 0.5, offset = 18, min_val = 18, max_val = IntLit 32\<rparr>"

definition AC4_Checksum :: signal where
  \<comment> \<open>\<^verbatim>\<open>Get_AC4_Checksum\<close>, \<^verbatim>\<open>Set_AC4_Checksum\<close>: lines 4372 to 4441\<close>
  "AC4_Checksum = \<lparr>message_id = 0x57C, bit_length = 8, base_byte = 0, base_bit = 7,
     scale = IntLit 1, offset = 0, min_val = 0, max_val = IntLit 255\<rparr>"

definition AC4_Front_EVAP_Temp :: signal where
  \<comment> \<open>\<^verbatim>\<open>Get_AC4_Front_EVAP_Temp\<close>, \<^verbatim>\<open>Set_AC4_Front_EVAP_Temp\<close>: lines 4451 to 4520\<close>
  "AC4_Front_EVAP_Temp = \<lparr>message_id = 0x57C, bit_length = 11, base_byte = 5, base_bit = 7,
     scale = IntLit 1, offset = (-40), min_val = (-40), max_val = IntLit 80\<rparr>"

definition signals :: "signal list" where
  "signals = [EMS3_F_EngineSpeed, EMS3_N_EngineSpeed, BR1_N_VehicleSpeed, PEPS1_St_RemoteControlSt,
     EMS2_St_ACON, EMS2_F_EngineTemp, EMS2_N_EngineTemp, EMS11_N_SoakTime, TCM1_N_SLP,
     AUDIO7_St_FlowModeVoiceControl, AUDIO7_St_SetTempVoiceControl_L,
     AUDIO7_S_FrontDefrostVoiceControl, AUDIO7_S_AutoVoiceControl,
     AUDIO7_S_AirCirculateVoiceControl, AUDIO7_S_ACCompresSwitchVoiceControl,
     AUDIO7_S_CLMWorkVoiceControl, AUDIO7_S_SYNC, AUDIO7_St_BlowerSpdSetVoiceControl,
     AUDIO7_S_RearDefrostVoiceControl, AUDIO7_St_SetTempVoiceControl_R, BCM1_St_ReverseGear,
     BCM1_F_ReverseGear, BCM1_N_PM25Value, AC1_Checksum, AC1_S_AC, AC1_St_Blower,
     AC1_H_L_PRESS_Sta, AC1_St_AirCirculate, AC1_MID_PRESS_Status, AC1_St_FlowMode,
     AUDIO4_S_PM25AirClean, AUDIO4_S_SetTempDown_R, AUDIO4_S_SetTempUp_L,
     AUDIO4_S_SetTempDown_L, AUDIO4_S_SYNC, AUDIO4_St_SetTemp_L,
     AUDIO4_S_TempLevelElectricAC, AUDIO4_St_SetBlower, AUDIO4_S_NegativeIon, AUDIO4_S_Auto,
     AUDIO4_S_AirCirculate, AUDIO4_S_ACCompresSwitch, AUDIO4_S_CLMOFF, AUDIO4_S_RearDefrost,
     AUDIO4_S_FRMPositionSet, AC2_Checksum, AC2_N_InsideCarTemp, AC2_N_EnvironmentTemp,
     AC2_St_SetTempAutomaticAC_L, AC2_St_TempLevelElectricAC, AC2_St_FLSeatHeating,
     AC2_St_RemoteControl, TBOX1_St_FrontDefrost, TBOX1_St_CLM, TBOX1_St_ACSetTemp,
     AC4_Checksum, AC4_Front_EVAP_Temp]"

text \<open>The accessors that are referred to by name below.\<close>

abbreviation "Get_EMS3_N_EngineSpeed \<equiv> Get_signal EMS3_N_EngineSpeed"
abbreviation "Set_EMS3_N_EngineSpeed \<equiv> Set_signal EMS3_N_EngineSpeed"
abbreviation "Set_EMS3_F_EngineSpeed \<equiv> Set_signal EMS3_F_EngineSpeed"
abbreviation "Get_BR1_N_VehicleSpeed \<equiv> Get_signal BR1_N_VehicleSpeed"
abbreviation "Set_BR1_N_VehicleSpeed \<equiv> Set_signal BR1_N_VehicleSpeed"
abbreviation "Get_EMS2_St_ACON \<equiv> Get_signal EMS2_St_ACON"
abbreviation "Set_EMS2_St_ACON \<equiv> Set_signal EMS2_St_ACON"
abbreviation "Get_EMS2_N_EngineTemp \<equiv> Get_signal EMS2_N_EngineTemp"
abbreviation "Set_EMS2_N_EngineTemp \<equiv> Set_signal EMS2_N_EngineTemp"

section \<open>Bit positions of a signal\<close>

text \<open>
  The pairs \<open>(byte_pos, bit_pos)\<close> that the loop of a signal computes, in the order of the
  loop counter. A pair whose bit position is 8 or more names no bit of the payload.
\<close>

definition positions :: "signal \<Rightarrow> (int \<times> nat) list" where
  "positions s =
     map (\<lambda>i. (base_byte s - int (i div 8), base_bit s + i mod 8)) [0..<bit_length s]"

text \<open>
  A signal stays inside the frame when every byte index of its loop is one of the 8 payload
  bytes; its accumulator shifts stay inside \<^verbatim>\<open>int\<close> when it has at most 16 bits.
\<close>

definition in_frame :: "signal \<Rightarrow> bool" where
  "in_frame s \<longleftrightarrow> bit_length s \<le> 16 \<and> list_all (\<lambda>(k, b). 0 \<le> k \<and> k < 8) (positions s)"

text \<open>Two frames for concrete runs.\<close>

definition zero_frame :: CAN_Frame where
  "zero_frame = \<lparr>id_f = 0, dlc = 0, data = [0, 0, 0, 0, 0, 0, 0, 0]\<rparr>"

definition ones_frame :: CAN_Frame where
  "ones_frame = \<lparr>id_f = 0x7FF, dlc = 3,
     data = [0xFF, 0xFF, 0xFF, 0xFF, 0xFF, 0xFF, 0xFF, 0xFF]\<rparr>"

section \<open>The big-endian reference layout\<close>

text \<open>
  The reference layout, as the specification words it: the most significant bit of a
  signal is its start bit; the following bits descend within the byte and then continue at
  bit 7 of the next lower-indexed byte. \<open>motorola_bits\<close> lists the bits of a signal from the
  most significant one, \<open>motorola_extract\<close> is the number they spell.
\<close>

fun motorola_next :: "int \<times> nat \<Rightarrow> int \<times> nat" where
  "motorola_next (byte, b) = (if b = 0 then (byte - 1, 7) else (byte, b - 1))"

fun motorola_bits :: "uint8_t list \<Rightarrow> int \<times> nat \<Rightarrow> nat \<Rightarrow> bool list" where
  "motorola_bits d p 0 = []"
| "motorola_bits d p (Suc n) =
     bit (d ! nat (fst p)) (snd p) # motorola_bits d (motorola_next p) n"

definition motorola_extract :: "signal \<Rightarrow> uint8_t list \<Rightarrow> uint64_t" where
  "motorola_extract s d =
     fold (\<lambda>b acc. 2 * acc + of_bool b)
       (motorola_bits d (base_byte s, base_bit s) (bit_length s)) 0"

section \<open>The macros on single bits\<close>

lemma GET_BIT_u8_eq: "GET_BIT_u8 d pos = of_bool (bit d pos)"
  unfolding GET_BIT_u8_def
  by (rule bit_eqI) (auto simp add: bit_simps dest: bit_imp_le_length)

lemma GET_BIT_u64_eq: "GET_BIT_u64 r i = of_bool (bit r i)"
  unfolding GET_BIT_u64_def
  by (rule bit_eqI) (auto simp add: bit_simps)

lemma bit_SET_BIT_u64:
  assumes "i < 31" and "n < 64"
  shows "bit (SET_BIT_u64 raw i (GET_BIT_u8 d pos)) n
     \<longleftrightarrow> (if n = i then bit d pos else bit raw n)"
  using assms unfolding SET_BIT_u64_def GET_BIT_u8_eq
  by (auto simp add: bit_simps min_def)

lemma bit_SET_BIT_u8:
  "bit (SET_BIT_u8 d pos (ucast (GET_BIT_u64 raw i))) n
     \<longleftrightarrow> (if n = pos then n < 8 \<and> bit raw i else bit d n)"
  unfolding SET_BIT_u8_def GET_BIT_u64_eq
  by (auto simp add: bit_simps min_def dest: bit_imp_le_length)

section \<open>What the getter loop reads\<close>

text \<open>
  Bit \<open>j\<close> of the accumulator is bit \<open>base_bit + j mod 8\<close> of byte \<open>base_byte - j div 8\<close>.
  A payload byte has no bit at a position of 8 or more, so the accumulator bit is 0 as soon
  as \<open>base_bit + j mod 8\<close> exceeds 7.
\<close>

lemma bit_get_fold:
  assumes "n \<le> 31"
  shows "bit (fold (get_step s d) [0..<n] 0) j
     \<longleftrightarrow> j < n \<and> bit (d ! nat (base_byte s - int (j div 8))) (base_bit s + j mod 8)"
  using assms
proof (induction n arbitrary: j)
  case 0
  then show ?case by simp
next
  case (Suc n)
  show ?case
  proof (cases "j < 64")
    case True
    with Suc show ?thesis
      by (auto simp add: get_step_def Let_def bit_SET_BIT_u64 less_Suc_eq)
  next
    case False
    then have "\<not> bit (fold (get_step s d) [0..<Suc n] 0) j"
      by (auto dest: bit_imp_le_length)
    moreover from False Suc.prems have "\<not> j < Suc n" by simp
    ultimately show ?thesis by simp
  qed
qed

lemma bit_get_loop:
  "bit_length s \<le> 31 \<Longrightarrow>
     bit (get_loop s d) j
       \<longleftrightarrow> j < bit_length s \<and> bit (d ! nat (base_byte s - int (j div 8))) (base_bit s + j mod 8)"
  unfolding get_loop_def by (rule bit_get_fold)

lemma get_loop_cong:
  assumes "bit_length s \<le> 31"
    and "\<And>j. j < bit_length s \<Longrightarrow>
           bit (d ! nat (base_byte s - int (j div 8))) (base_bit s + j mod 8)
         = bit (d' ! nat (base_byte s - int (j div 8))) (base_bit s + j mod 8)"
  shows "get_loop s d = get_loop s d'"
  by (rule bit_eqI) (auto simp add: bit_get_loop assms)

section \<open>What the setter loop writes\<close>

lemma length_set_fold: "length (fold (set_step s raw) xs d) = length d"
  by (induction xs arbitrary: d) (simp_all add: set_step_def Let_def)

lemma length_set_loop: "length (set_loop s raw d) = length d"
  by (simp add: set_loop_def length_set_fold)

lemma set_step_frame:
  assumes "0 \<le> base_byte s - int (i div 8)"
    and "(int k, n) \<noteq> (base_byte s - int (i div 8), base_bit s + i mod 8)"
  shows "bit (set_step s raw i d ! k) n \<longleftrightarrow> bit (d ! k) n"
proof (cases "k = nat (base_byte s - int (i div 8))")
  case False
  then show ?thesis by (simp add: set_step_def Let_def)
next
  case True
  with assms have neq: "n \<noteq> base_bit s + i mod 8" by auto
  show ?thesis
  proof (cases "k < length d")
    case True
    with \<open>k = _\<close> neq show ?thesis
      by (simp add: set_step_def Let_def bit_SET_BIT_u8)
  next
    case False
    with \<open>k = _\<close> show ?thesis
      by (simp add: set_step_def Let_def list_update_beyond)
  qed
qed

lemma set_step_written:
  assumes "0 \<le> base_byte s - int (i div 8)"
    and "nat (base_byte s - int (i div 8)) < length d"
    and "base_bit s + i mod 8 < 8"
  shows "bit (set_step s raw i d ! nat (base_byte s - int (i div 8))) (base_bit s + i mod 8)
     \<longleftrightarrow> bit raw i"
  using assms by (simp add: set_step_def Let_def bit_SET_BIT_u8)

lemma set_fold_frame:
  assumes "\<forall>i<m. 0 \<le> base_byte s - int (i div 8)"
    and "\<forall>i<m. (int k, n) \<noteq> (base_byte s - int (i div 8), base_bit s + i mod 8)"
  shows "bit (fold (set_step s raw) [0..<m] d ! k) n \<longleftrightarrow> bit (d ! k) n"
  using assms
proof (induction m)
  case 0
  then show ?case by simp
next
  case (Suc m)
  from Suc.prems have "bit (set_step s raw m (fold (set_step s raw) [0..<m] d) ! k) n
      \<longleftrightarrow> bit (fold (set_step s raw) [0..<m] d ! k) n"
    by (intro set_step_frame) auto
  also from Suc have "\<dots> \<longleftrightarrow> bit (d ! k) n" by simp
  finally show ?case by simp
qed

lemma set_fold_written:
  assumes "\<forall>i<m. 0 \<le> base_byte s - int (i div 8)"
    and "j < m" and "nat (base_byte s - int (j div 8)) < length d"
    and "base_bit s + j mod 8 < 8"
  shows "bit (fold (set_step s raw) [0..<m] d ! nat (base_byte s - int (j div 8)))
           (base_bit s + j mod 8) \<longleftrightarrow> bit raw j"
  using assms
proof (induction m)
  case 0
  then show ?case by simp
next
  case (Suc m)
  let ?d = "fold (set_step s raw) [0..<m] d"
  show ?case
  proof (cases "j = m")
    case True
    with Suc.prems show ?thesis
      by (simp add: set_step_written length_set_fold)
  next
    case False
    with Suc.prems have jm: "j < m" by simp
    have neq: "(int (nat (base_byte s - int (j div 8))), base_bit s + j mod 8)
        \<noteq> (base_byte s - int (m div 8), base_bit s + m mod 8)"
    proof
      assume eq: "(int (nat (base_byte s - int (j div 8))), base_bit s + j mod 8)
        = (base_byte s - int (m div 8), base_bit s + m mod 8)"
      from Suc.prems(1) jm have "0 \<le> base_byte s - int (j div 8)" by simp
      with eq have "j div 8 = m div 8" "j mod 8 = m mod 8" by auto
      then have "j = m" by (metis div_mult_mod_eq)
      with False show False by simp
    qed
    from Suc.prems(1) have "0 \<le> base_byte s - int (m div 8)" by simp
    then have "bit (set_step s raw m ?d ! nat (base_byte s - int (j div 8))) (base_bit s + j mod 8)
        \<longleftrightarrow> bit (?d ! nat (base_byte s - int (j div 8))) (base_bit s + j mod 8)"
      using neq by (rule set_step_frame)
    also have "\<dots> \<longleftrightarrow> bit raw j"
      using Suc.prems jm by (intro Suc.IH) auto
    finally show ?thesis by simp
  qed
qed

lemma in_frame_nonneg:
  "in_frame s \<Longrightarrow> i < bit_length s \<Longrightarrow> 0 \<le> base_byte s - int (i div 8)"
  by (auto simp add: in_frame_def positions_def list_all_iff)

lemma in_frame_all_nonneg:
  "in_frame s \<Longrightarrow> \<forall>i<bit_length s. 0 \<le> base_byte s - int (i div 8)"
  using in_frame_nonneg by blast

lemma set_loop_frame:
  assumes "in_frame s" and "(int k, n) \<notin> set (positions s)"
  shows "bit (set_loop s raw d ! k) n \<longleftrightarrow> bit (d ! k) n"
  unfolding set_loop_def
proof (rule set_fold_frame)
  show "\<forall>i<bit_length s. 0 \<le> base_byte s - int (i div 8)"
    using assms(1) by (rule in_frame_all_nonneg)
  show "\<forall>i<bit_length s. (int k, n) \<noteq> (base_byte s - int (i div 8), base_bit s + i mod 8)"
    using assms(2) by (auto simp add: positions_def)
qed

section \<open>Reading after writing\<close>

text \<open>Reading a signal after another signal with disjoint positions was written.\<close>

lemma get_after_set_other:
  assumes A: "in_frame A" and B: "in_frame B"
    and disj: "set (positions A) \<inter> set (positions B) = {}"
  shows "get_loop A (set_loop B raw d) = get_loop A d"
proof (rule get_loop_cong)
  from A show "bit_length A \<le> 31" by (simp add: in_frame_def)
next
  fix j assume j: "j < bit_length A"
  let ?k = "base_byte A - int (j div 8)" and ?n = "base_bit A + j mod 8"
  from A j have "0 \<le> ?k" by (rule in_frame_nonneg)
  moreover from j have "(?k, ?n) \<in> set (positions A)"
    by (auto simp add: positions_def)
  ultimately have "(int (nat ?k), ?n) \<notin> set (positions B)"
    using disj by auto
  with B show "bit (set_loop B raw d ! nat ?k) ?n = bit (d ! nat ?k) ?n"
    by (rule set_loop_frame)
qed

text \<open>
  Reading a signal after the same signal was written: bit \<open>j\<close> of the raw value comes back
  only if \<open>base_bit + j mod 8\<close> is at most 7. The other bits of the raw value are never
  stored and read back as 0.
\<close>

lemma get_after_set_same:
  assumes "in_frame s" and "length d = 8"
  shows "bit (get_loop s (set_loop s raw d)) j
     \<longleftrightarrow> j < bit_length s \<and> base_bit s + j mod 8 < 8 \<and> bit raw j"
proof (cases "j < bit_length s")
  case False
  with assms(1) show ?thesis by (simp add: bit_get_loop in_frame_def)
next
  case True
  let ?k = "base_byte s - int (j div 8)" and ?n = "base_bit s + j mod 8"
  from assms(1) True have "(?k, ?n) \<in> set (positions s)"
    by (auto simp add: positions_def)
  with assms have k: "0 \<le> ?k" "nat ?k < length d"
    by (auto simp add: in_frame_def list_all_iff)
  show ?thesis
  proof (cases "?n < 8")
    case False
    then have "\<not> bit (set_loop s raw d ! nat ?k) ?n"
      by (auto dest: bit_imp_le_length)
    with assms(1) True False show ?thesis
      by (simp add: bit_get_loop in_frame_def)
  next
    case n: True
    have "bit (set_loop s raw d ! nat ?k) ?n \<longleftrightarrow> bit raw j"
      unfolding set_loop_def
      by (rule set_fold_written [OF in_frame_all_nonneg [OF assms(1)] True k(2) n])
    with assms(1) True n show ?thesis
      by (simp add: bit_get_loop in_frame_def)
  qed
qed

section \<open>Facts about the table\<close>

lemma signals_in_frame: "list_all in_frame signals"
  by code_simp

lemma in_signals_in_frame: "s \<in> set signals \<Longrightarrow> in_frame s"
  using signals_in_frame by (simp add: list_all_iff)

text \<open>The table has 57 entries, no two of them equal.\<close>

lemma signals_distinct: "distinct signals" "length signals = 57"
  by code_simp+

text \<open>Two different signals of one message never share a position.\<close>

lemma signals_disjoint:
  "list_all (\<lambda>A. list_all (\<lambda>B. A = B \<or> message_id A \<noteq> message_id B
       \<or> list_all (\<lambda>p. p \<notin> set (positions B)) (positions A)) signals) signals"
  by code_simp

lemma in_signals_disjoint:
  assumes "A \<in> set signals" and "B \<in> set signals" and "A \<noteq> B"
    and "message_id A = message_id B"
  shows "set (positions A) \<inter> set (positions B) = {}"
  using signals_disjoint assms by (auto simp add: list_all_iff)

lemma signals_min_le_max:
  "list_all (\<lambda>s. of_int (min_val s) \<le> lit_val (max_val s)) signals"
  by code_simp

text \<open>
  In every table entry the lower bound is the offset, so an accepted value minus the
  offset is not negative and the cast of the rounded quotient to \<^verbatim>\<open>uint64_t\<close> is
  defined.
\<close>

lemma signals_min_is_offset: "list_all (\<lambda>s. min_val s = offset s) signals"
  by code_simp

text \<open>Some roundings, for comparison with a C compiler.\<close>

lemma rounding_examples:
  "to_double 0.01 = 5764607523034235 / 2 ^ 59"
  "to_float 327.66 = 10736763 / 2 ^ 15"
  "to_float 7.68 = 16106127 / 2 ^ 21"
  "to_float 0.1 = 13421773 / 2 ^ 27"
  by code_simp+

text \<open>The values passed to setters in the concrete runs below are \<^verbatim>\<open>float\<close> numbers.\<close>

lemma concrete_values_are_floats:
  "is_float 0.5" "is_float 100" "is_float 66" "is_float 1" "is_float 16384"
  "is_float (- 48)" "is_float 142.5" "is_float (- 48.75)" "is_float 143.25"
  by code_simp+

text \<open>
  Every bound of the table is a \<^verbatim>\<open>float\<close>, except the upper bound 327.66 of
  \<^verbatim>\<open>BR1_N_VehicleSpeed\<close>.
\<close>

lemma signals_min_float: "list_all (\<lambda>s. is_float (of_int (min_val s))) signals"
  by code_simp

lemma signals_max_float:
  "list_all (\<lambda>s. s = BR1_N_VehicleSpeed \<or> is_float (lit_val (max_val s))) signals"
  by code_simp

text \<open>
  The range check of a setter on the values a call can pass: a value outside the bounds is
  rejected, the lower bound is accepted, and so is the upper bound of every signal other
  than \<^verbatim>\<open>BR1_N_VehicleSpeed\<close>.
\<close>

lemma Set_signal_range_check:
  assumes "s \<in> set signals"
  shows "v < of_int (min_val s) \<or> v > lit_val (max_val s) \<Longrightarrow> \<not> fst (Set_signal s f v)"
    and "is_float (of_int (min_val s)) \<and> fst (Set_signal s f (of_int (min_val s)))"
    and "s \<noteq> BR1_N_VehicleSpeed \<Longrightarrow>
           is_float (lit_val (max_val s)) \<and> fst (Set_signal s f (lit_val (max_val s)))"
proof -
  from assms signals_min_le_max have le: "of_int (min_val s) \<le> lit_val (max_val s)"
    by (simp add: list_all_iff)
  show "\<not> fst (Set_signal s f v)" if "v < of_int (min_val s) \<or> v > lit_val (max_val s)"
    using that by (simp add: Set_signal_def out_of_range_def)
  from assms signals_min_float have "is_float (of_int (min_val s))"
    by (simp add: list_all_iff)
  with le show "is_float (of_int (min_val s)) \<and> fst (Set_signal s f (of_int (min_val s)))"
    by (simp add: Set_signal_def out_of_range_def)
  show "is_float (lit_val (max_val s)) \<and> fst (Set_signal s f (lit_val (max_val s)))"
    if "s \<noteq> BR1_N_VehicleSpeed"
  proof -
    from assms that signals_max_float have "is_float (lit_val (max_val s))"
      by (auto simp add: list_all_iff)
    with le show ?thesis by (simp add: Set_signal_def out_of_range_def)
  qed
qed

text \<open>A signal of one bit is read from its start bit, as in the reference layout.\<close>

lemma one_bit_get_loop_eq_motorola:
  assumes "bit_length s = 1"
  shows "get_loop s d = motorola_extract s d"
  using assms
  by (simp add: get_loop_def motorola_extract_def get_step_def SET_BIT_u64_def
      GET_BIT_u8_eq Let_def)

text \<open>
  The loop of \<^verbatim>\<open>Get_EMS3_N_EngineSpeed\<close> reads bit 7 of byte 4 into bit 0 and bit 7 of
  byte 3 into bit 8 of the raw value, and nothing else; of a raw value written by
  \<^verbatim>\<open>Set_EMS3_N_EngineSpeed\<close> only bits 0 and 8 come back.
\<close>

lemma EMS3_N_EngineSpeed_consts:
  "bit_length EMS3_N_EngineSpeed = 16" "base_byte EMS3_N_EngineSpeed = 4"
  "base_bit EMS3_N_EngineSpeed = 7"
  by (simp_all add: EMS3_N_EngineSpeed_def)

lemma mod8_eq_0_below_16: "j < 16 \<and> j mod 8 = 0 \<longleftrightarrow> j = 0 \<or> j = (8::nat)"
  by presburger

lemma bit_0x101: "bit (0x101 :: uint64_t) j \<longleftrightarrow> j = 0 \<or> j = 8"
proof -
  have "(0x101 :: uint64_t) = 1 OR push_bit 8 1" by simp
  then have "bit (0x101 :: uint64_t) j \<longleftrightarrow> bit (1 OR push_bit 8 1 :: uint64_t) j"
    by (simp only:)
  also have "\<dots> \<longleftrightarrow> j = 0 \<or> j = 8"
    by (simp only: bit_or_iff bit_push_bit_iff bit_1_iff) (auto simp add: possible_bit_word)
  finally show ?thesis .
qed

lemma get_loop_EMS3_N_EngineSpeed:
  "get_loop EMS3_N_EngineSpeed d
     = of_bool (bit (d ! 4) 7) OR push_bit 8 (of_bool (bit (d ! 3) 7))"
proof (rule bit_eqI)
  fix j
  have "bit (get_loop EMS3_N_EngineSpeed d) j
      \<longleftrightarrow> j < 16 \<and> bit (d ! nat (4 - int (j div 8))) (7 + j mod 8)"
    by (simp add: bit_get_loop EMS3_N_EngineSpeed_consts)
  also have "\<dots> \<longleftrightarrow> (j < 16 \<and> j mod 8 = 0) \<and> bit (d ! nat (4 - int (j div 8))) 7"
    by (cases "j mod 8 = 0") (auto dest: bit_imp_le_length)
  also have "\<dots> \<longleftrightarrow> (j = 0 \<or> j = 8) \<and> bit (d ! nat (4 - int (j div 8))) 7"
    by (simp only: mod8_eq_0_below_16)
  also have "\<dots> \<longleftrightarrow> (j = 0 \<and> bit (d ! 4) 7) \<or> (j = 8 \<and> bit (d ! 3) 7)"
    by auto
  finally show "bit (get_loop EMS3_N_EngineSpeed d) j
      \<longleftrightarrow> bit (of_bool (bit (d ! 4) 7) OR push_bit 8 (of_bool (bit (d ! 3) 7)) :: uint64_t) j"
    by (auto simp add: bit_simps)
qed

lemma EMS3_N_EngineSpeed_readback:
  assumes "length d = 8"
  shows "get_loop EMS3_N_EngineSpeed (set_loop EMS3_N_EngineSpeed raw d) = raw AND 0x101"
proof (rule bit_eqI)
  fix j
  have "in_frame EMS3_N_EngineSpeed" by code_simp
  then have "bit (get_loop EMS3_N_EngineSpeed (set_loop EMS3_N_EngineSpeed raw d)) j
      \<longleftrightarrow> j < 16 \<and> 7 + j mod 8 < 8 \<and> bit raw j"
    using assms by (simp add: get_after_set_same EMS3_N_EngineSpeed_consts)
  also have "\<dots> \<longleftrightarrow> (j < 16 \<and> j mod 8 = 0) \<and> bit raw j"
    by auto
  also have "\<dots> \<longleftrightarrow> (j = 0 \<or> j = 8) \<and> bit raw j"
    by (simp only: mod8_eq_0_below_16)
  finally show "bit (get_loop EMS3_N_EngineSpeed (set_loop EMS3_N_EngineSpeed raw d)) j
      \<longleftrightarrow> bit (raw AND 0x101) j"
    by (simp only: bit_and_iff bit_0x101) blast
qed

text \<open>
  Of a raw value written by \<^verbatim>\<open>Set_BR1_N_VehicleSpeed\<close> only bits 0, 1, 8 and 9 come
  back. Encoding 100 into any frame of 8 bytes and decoding it gives the \<^verbatim>\<open>float\<close>
  nearest to 7.68.
\<close>

lemma BR1_N_VehicleSpeed_consts:
  "bit_length BR1_N_VehicleSpeed = 15" "base_byte BR1_N_VehicleSpeed = 4"
  "base_bit BR1_N_VehicleSpeed = 6" "message_id BR1_N_VehicleSpeed = 0x130"
  by (simp_all add: BR1_N_VehicleSpeed_def)

lemma mod8_le_1_below_15:
  "j < 15 \<and> 6 + j mod 8 < 8 \<longleftrightarrow> j = 0 \<or> j = 1 \<or> j = 8 \<or> j = (9::nat)"
  by presburger

lemma bit_0x303: "bit (0x303 :: uint64_t) j \<longleftrightarrow> j = 0 \<or> j = 1 \<or> j = 8 \<or> j = 9"
proof -
  have "(0x303 :: uint64_t) = 1 OR push_bit 1 1 OR push_bit 8 1 OR push_bit 9 1" by simp
  then have "bit (0x303 :: uint64_t) j
      \<longleftrightarrow> bit (1 OR push_bit 1 1 OR push_bit 8 1 OR push_bit 9 1 :: uint64_t) j"
    by (simp only:)
  also have "\<dots> \<longleftrightarrow> j = 0 \<or> j = 1 \<or> j = 8 \<or> j = 9"
    by (simp only: bit_or_iff bit_push_bit_iff bit_1_iff) (auto simp add: possible_bit_word)
  finally show ?thesis .
qed

lemma BR1_N_VehicleSpeed_readback:
  assumes "length d = 8"
  shows "get_loop BR1_N_VehicleSpeed (set_loop BR1_N_VehicleSpeed raw d) = raw AND 0x303"
proof (rule bit_eqI)
  fix j
  have "in_frame BR1_N_VehicleSpeed" by code_simp
  then have "bit (get_loop BR1_N_VehicleSpeed (set_loop BR1_N_VehicleSpeed raw d)) j
      \<longleftrightarrow> (j < 15 \<and> 6 + j mod 8 < 8) \<and> bit raw j"
    using assms by (simp add: get_after_set_same BR1_N_VehicleSpeed_consts)
  also have "\<dots> \<longleftrightarrow> (j = 0 \<or> j = 1 \<or> j = 8 \<or> j = 9) \<and> bit raw j"
    by (simp only: mod8_le_1_below_15)
  finally show "bit (get_loop BR1_N_VehicleSpeed (set_loop BR1_N_VehicleSpeed raw d)) j
      \<longleftrightarrow> bit (raw AND 0x303) j"
    by (simp only: bit_and_iff bit_0x303) blast
qed

lemma BR1_N_VehicleSpeed_100_any_frame:
  assumes "length (data f) = 8"
  shows "fst (Set_BR1_N_VehicleSpeed f 100)"
    and "Get_BR1_N_VehicleSpeed (Ptr (snd (Set_BR1_N_VehicleSpeed f 100))) True
       = (True, Some (16106127 / 2097152))"
proof -
  have r: "\<not> out_of_range BR1_N_VehicleSpeed 100" by code_simp
  then show "fst (Set_BR1_N_VehicleSpeed f 100)" by (simp add: Set_signal_def)
  define c :: rat where "c = 16106127 / 2097152"
  have "raw_of_value BR1_N_VehicleSpeed 100 = 0x2710" by code_simp
  then have gl: "get_loop BR1_N_VehicleSpeed
      (set_loop BR1_N_VehicleSpeed (raw_of_value BR1_N_VehicleSpeed 100) (data f)) = 0x300"
    using assms by (simp add: BR1_N_VehicleSpeed_readback)
  have pv: "physical_value BR1_N_VehicleSpeed 0x300 = c"
    unfolding c_def by code_simp
  have ok: "\<not> out_of_range BR1_N_VehicleSpeed c"
    unfolding c_def by code_simp
  from r gl pv ok
  have "Get_BR1_N_VehicleSpeed (Ptr (snd (Set_BR1_N_VehicleSpeed f 100))) True = (True, Some c)"
    by (simp add: Get_signal_def Set_signal_def BR1_N_VehicleSpeed_consts)
  then show "Get_BR1_N_VehicleSpeed (Ptr (snd (Set_BR1_N_VehicleSpeed f 100))) True
       = (True, Some (16106127 / 2097152))"
    by (simp only: c_def)
qed

text \<open>
  The loop of \<^verbatim>\<open>Get_EMS2_N_EngineTemp\<close> reads bit 7 of byte 2 and nothing else.
\<close>

lemma get_loop_EMS2_N_EngineTemp:
  "get_loop EMS2_N_EngineTemp d = of_bool (bit (d ! 2) 7)"
proof (rule bit_eqI)
  fix j
  have "bit_length EMS2_N_EngineTemp = 8" "base_byte EMS2_N_EngineTemp = 2"
    "base_bit EMS2_N_EngineTemp = 7"
    by (simp_all add: EMS2_N_EngineTemp_def)
  then have "bit (get_loop EMS2_N_EngineTemp d) j \<longleftrightarrow> j < 8 \<and> bit (d ! 2) (7 + j mod 8)"
    by (auto simp add: bit_get_loop)
  also have "\<dots> \<longleftrightarrow> j = 0 \<and> bit (d ! 2) 7"
    by (cases "j = 0") (auto dest: bit_imp_le_length)
  finally show "bit (get_loop EMS2_N_EngineTemp d) j
      \<longleftrightarrow> bit (of_bool (bit (d ! 2) 7) :: uint64_t) j"
    by (auto simp add: bit_simps)
qed

lemma Get_EMS2_N_EngineTemp_byte2_0x98:
  assumes "id_f f = 0x320" and "data f ! 2 = 0x98"
  shows "Get_EMS2_N_EngineTemp (Ptr f) True = (True, Some (- 47.25))"
proof -
  have "get_loop EMS2_N_EngineTemp (data f) = 1"
    by (simp add: get_loop_EMS2_N_EngineTemp assms(2))
  moreover have "physical_value EMS2_N_EngineTemp 1 = - 47.25"
    by code_simp
  moreover have "\<not> out_of_range EMS2_N_EngineTemp (- 47.25)"
    by code_simp
  moreover have "message_id EMS2_N_EngineTemp = 0x320"
    by (simp add: EMS2_N_EngineTemp_def)
  ultimately show ?thesis
    using assms(1) by (simp add: Get_signal_def)
qed

section \<open>Round trip and layout\<close>

text \<open>
  Claim C1 (round trip per signal): for every raw value \<open>r\<close> of a signal whose physical
  value \<open>r * scale + offset\<close> is in range, writing the physical value with the setter and
  reading the frame with the getter recovers \<open>r\<close>; in particular for
  \<^verbatim>\<open>EMS3_N_EngineSpeed\<close> and every \<open>r\<close> from 0 to 65535. The source does not do this.
  For \<open>r = 2\<close> the physical value is 0.5; the setter accepts it, computes the raw value 2
  and stores none of its set bits, and the getter reads the raw value 0 and reports 0.
\<close>

theorem EMS3_N_EngineSpeed_roundtrip_raw_2:
  "physical_value EMS3_N_EngineSpeed 2 = 0.5 \<and>
   raw_of_value EMS3_N_EngineSpeed 0.5 = 2 \<and>
   Set_EMS3_N_EngineSpeed zero_frame 0.5 = (True, zero_frame\<lparr>id_f := 0x120, dlc := 8\<rparr>) \<and>
   get_loop EMS3_N_EngineSpeed (data (snd (Set_EMS3_N_EngineSpeed zero_frame 0.5))) = 0 \<and>
   Get_EMS3_N_EngineSpeed (Ptr (snd (Set_EMS3_N_EngineSpeed zero_frame 0.5))) True
     = (True, Some 0)"
  by code_simp

text \<open>
  Claim C2 (the loop against the reference layout): the bit-walking loop of every getter
  extracts the same raw value as the big-endian reference extraction for the same start
  bit and bit length, for instance the 16-bit loop of \<^verbatim>\<open>Get_EMS3_N_EngineSpeed\<close>. The
  source does not do this. With 0x12 in byte 4 and 0x34 in byte 3 the reference value is
  0x1234, and the loop reads 0.
\<close>

theorem get_loop_EMS3_N_EngineSpeed_vs_motorola:
  "motorola_extract EMS3_N_EngineSpeed [0, 0, 0, 0x34, 0x12, 0, 0, 0] = 0x1234 \<and>
   get_loop EMS3_N_EngineSpeed [0, 0, 0, 0x34, 0x12, 0, 0, 0] = 0"
  by code_simp

section \<open>Concrete scenarios\<close>

text \<open>
  Claim C3 (decode scenario): for a frame with identifier 0x320 and 0x98 in byte 2,
  \<^verbatim>\<open>Get_EMS2_N_EngineTemp\<close> succeeds and stores \<open>152 * 0.75 - 48 = 66\<close>. The source
  succeeds, but reads the raw value 1 and stores \<open>1 * 0.75 - 48 = - 47.25\<close>.
\<close>

theorem Get_EMS2_N_EngineTemp_scenario:
  "Get_EMS2_N_EngineTemp
     (Ptr \<lparr>id_f = 0x320, dlc = 8, data = [0, 0, 0x98, 0, 0, 0, 0, 0]\<rparr>) True
     = (True, Some (- 47.25)) \<and>
   get_loop EMS2_N_EngineTemp [0, 0, 0x98, 0, 0, 0, 0, 0] = 1 \<and>
   motorola_extract EMS2_N_EngineTemp [0, 0, 0x98, 0, 0, 0, 0, 0] = 152"
  by code_simp

text \<open>
  Claim C4 (encode and decode scenario): \<^verbatim>\<open>Set_BR1_N_VehicleSpeed\<close> with 100.00 succeeds
  and packs the raw value 10000 = 0x2710 into 15 bits from byte 4 bit 6, and
  \<^verbatim>\<open>Get_BR1_N_VehicleSpeed\<close> on the result succeeds and yields 100.00. In the source the
  setter succeeds and computes the raw value 0x2710, but stores only its bits 0, 1, 8 and 9:
  on the zero frame byte 3 becomes 0xC0 and nothing else changes. The getter then reads the
  raw value 0x300 = 768 and yields the \<^verbatim>\<open>float\<close> nearest to 7.68.
\<close>

theorem BR1_N_VehicleSpeed_scenario:
  "raw_of_value BR1_N_VehicleSpeed 100 = 0x2710 \<and>
   Set_BR1_N_VehicleSpeed zero_frame 100
     = (True, \<lparr>id_f = 0x130, dlc = 8, data = [0, 0, 0, 0xC0, 0, 0, 0, 0]\<rparr>) \<and>
   get_loop BR1_N_VehicleSpeed (data (snd (Set_BR1_N_VehicleSpeed zero_frame 100))) = 0x300 \<and>
   Get_BR1_N_VehicleSpeed (Ptr (snd (Set_BR1_N_VehicleSpeed zero_frame 100))) True
     = (True, Some (16106127 / 2097152))"
  by code_simp

section \<open>Frame effects\<close>

text \<open>
  Claim C5 (non-interference within a message): for two different signals \<open>A\<close> and \<open>B\<close> of
  the same message, encoding \<open>A\<close> with an in-range value and then \<open>B\<close> with an in-range
  value leaves \<open>A\<close> as it was: decoding \<open>A\<close> after \<open>B\<close> was encoded gives the same result as
  decoding \<open>A\<close> before. Two different signals of one message in the table never share a
  position (\<open>signals_disjoint\<close>), so no further condition is needed.
\<close>

theorem non_interference:
  assumes "A \<in> set signals" and "B \<in> set signals" and "A \<noteq> B"
    and "message_id A = message_id B"
    and "of_int (min_val A) \<le> va" and "va \<le> lit_val (max_val A)"
    and "of_int (min_val B) \<le> vb" and "vb \<le> lit_val (max_val B)"
  shows "Get_signal A (Ptr (snd (Set_signal B (snd (Set_signal A f va)) vb))) True
       = Get_signal A (Ptr (snd (Set_signal A f va))) True"
proof -
  have "get_loop A (set_loop B (raw_of_value B vb) d) = get_loop A d" for d
    using assms(1-4) by (intro get_after_set_other in_signals_in_frame in_signals_disjoint)
  with assms(4-8) show ?thesis
    by (simp add: Get_signal_def Set_signal_def out_of_range_def Let_def)
qed

theorem non_interference_witness:
  "EMS2_St_ACON \<in> set signals \<and> EMS2_N_EngineTemp \<in> set signals
   \<and> EMS2_St_ACON \<noteq> EMS2_N_EngineTemp
   \<and> message_id EMS2_St_ACON = message_id EMS2_N_EngineTemp
   \<and> of_int (min_val EMS2_St_ACON) \<le> (1 :: rat) \<and> 1 \<le> lit_val (max_val EMS2_St_ACON)
   \<and> of_int (min_val EMS2_N_EngineTemp) \<le> (66 :: rat)
   \<and> 66 \<le> lit_val (max_val EMS2_N_EngineTemp)
   \<and> Get_EMS2_St_ACON (Ptr (snd (Set_EMS2_N_EngineTemp (snd (Set_EMS2_St_ACON ones_frame 1)) 66))) True
     = Get_EMS2_St_ACON (Ptr (snd (Set_EMS2_St_ACON ones_frame 1))) True"
proof -
  have h1: "EMS2_St_ACON \<in> set signals" by code_simp
  have h2: "EMS2_N_EngineTemp \<in> set signals" by code_simp
  have h3: "EMS2_St_ACON \<noteq> EMS2_N_EngineTemp" by code_simp
  have h4: "message_id EMS2_St_ACON = message_id EMS2_N_EngineTemp" by code_simp
  have h5: "of_int (min_val EMS2_St_ACON) \<le> (1 :: rat)" by code_simp
  have h6: "1 \<le> lit_val (max_val EMS2_St_ACON)" by code_simp
  have h7: "of_int (min_val EMS2_N_EngineTemp) \<le> (66 :: rat)" by code_simp
  have h8: "66 \<le> lit_val (max_val EMS2_N_EngineTemp)" by code_simp
  from h1 h2 h3 h4 h5 h6 h7 h8 non_interference [OF h1 h2 h3 h4 h5 h6 h7 h8, of ones_frame]
  show ?thesis by (intro conjI)
qed

text \<open>
  Claim C9 (effects of a successful encode): when a setter succeeds, the frame identifier
  is the message identifier of the signal, the length code is 8, and the payload is
  preserved outside the positions of the signal: every bit that is not at a position of the
  loop keeps its value, and so does every byte that the loop does not index.
\<close>

theorem Set_signal_success_effects:
  assumes "s \<in> set signals" and "Set_signal s f v = (True, f')"
  shows "id_f f' = message_id s \<and> dlc f' = 8 \<and> length (data f') = length (data f)
       \<and> (\<forall>k n. (int k, n) \<notin> set (positions s) \<longrightarrow> bit (data f' ! k) n = bit (data f ! k) n)
       \<and> (\<forall>k. int k \<notin> fst ` set (positions s) \<longrightarrow> data f' ! k = data f ! k)"
proof -
  from assms(2) have f': "f' = f\<lparr>data := set_loop s (raw_of_value s v) (data f),
      id_f := message_id s, dlc := 8\<rparr>"
    by (auto simp add: Set_signal_def split: if_splits)
  have bits: "bit (data f' ! k) n = bit (data f ! k) n"
    if "(int k, n) \<notin> set (positions s)" for k n
    using that assms(1) by (simp add: f' set_loop_frame in_signals_in_frame)
  have "data f' ! k = data f ! k" if "int k \<notin> fst ` set (positions s)" for k
  proof (rule bit_eqI)
    fix n
    from that have "(int k, n) \<notin> set (positions s)" by force
    then show "bit (data f' ! k) n = bit (data f ! k) n" by (rule bits)
  qed
  with bits show ?thesis by (simp add: f' length_set_loop)
qed

theorem Set_signal_success_effects_witness:
  "EMS2_N_EngineTemp \<in> set signals
   \<and> Set_EMS2_N_EngineTemp ones_frame 66
       = (True, \<lparr>id_f = 0x320, dlc = 8,
                 data = [0xFF, 0xFF, 0x7F, 0xFF, 0xFF, 0xFF, 0xFF, 0xFF]\<rparr>)
   \<and> (int 2, 0) \<notin> set (positions EMS2_N_EngineTemp)
   \<and> int 3 \<notin> fst ` set (positions EMS2_N_EngineTemp)
   \<and> id_f (snd (Set_EMS2_N_EngineTemp ones_frame 66)) = message_id EMS2_N_EngineTemp
   \<and> dlc (snd (Set_EMS2_N_EngineTemp ones_frame 66)) = 8
   \<and> bit (data (snd (Set_EMS2_N_EngineTemp ones_frame 66)) ! 2) 0 = bit (data ones_frame ! 2) 0
   \<and> data (snd (Set_EMS2_N_EngineTemp ones_frame 66)) ! 3 = data ones_frame ! 3"
proof -
  let ?f' = "\<lparr>id_f = 0x320, dlc = 8,
     data = [0xFF, 0xFF, 0x7F, 0xFF, 0xFF, 0xFF, 0xFF, 0xFF :: uint8_t]\<rparr>"
  have h1: "EMS2_N_EngineTemp \<in> set signals" by code_simp
  have h2: "Set_EMS2_N_EngineTemp ones_frame 66 = (True, ?f')" by code_simp
  have h3: "(int 2, 0) \<notin> set (positions EMS2_N_EngineTemp)" by code_simp
  have h4: "int 3 \<notin> fst ` set (positions EMS2_N_EngineTemp)" by code_simp
  from Set_signal_success_effects [OF h1 h2] h3 h4
  have "id_f ?f' = message_id EMS2_N_EngineTemp" "dlc ?f' = 8"
    "bit (data ?f' ! 2) 0 = bit (data ones_frame ! 2) 0"
    "data ?f' ! 3 = data ones_frame ! 3"
    by blast+
  with h1 h2 h3 h4 show ?thesis by simp
qed

section \<open>Failure behaviour\<close>

text \<open>
  Claim C6 (range enforcement on encode): for every signal, the setter fails when the value
  is below the lower bound or above the upper bound, and succeeds when it is called with
  exactly the lower and exactly the upper bound. The source does not do this for
  \<^verbatim>\<open>BR1_N_VehicleSpeed\<close>. Its upper bound is the \<^verbatim>\<open>double\<close> literal 327.66, and
  the parameter is a \<^verbatim>\<open>float\<close>: a call with 327.66 passes the nearest
  \<^verbatim>\<open>float\<close>, 10736763 / 32768, which is greater than the \<^verbatim>\<open>double\<close> it is
  compared with, so the setter returns false and leaves the frame as it was. The next
  \<^verbatim>\<open>float\<close> below, 10736762 / 32768, is accepted and encoded as the raw value 32766,
  the raw value of 327.66. The two are consecutive multiples of \<open>1 / 32768\<close>, the spacing
  of \<^verbatim>\<open>float\<close> between 256 and 512.
\<close>

theorem Set_BR1_N_VehicleSpeed_at_max_rejected:
  "to_float 327.66 = 10736763 / 32768 \<and>
   to_float (lit_val (max_val BR1_N_VehicleSpeed)) = 10736763 / 32768 \<and>
   lit_val (max_val BR1_N_VehicleSpeed) = 5764255679313347 / 17592186044416 \<and>
   lit_val (max_val BR1_N_VehicleSpeed) < to_float 327.66 \<and>
   Set_BR1_N_VehicleSpeed zero_frame (to_float 327.66) = (False, zero_frame) \<and>
   is_float (10736762 / 32768) \<and>
   fst (Set_BR1_N_VehicleSpeed zero_frame (10736762 / 32768)) \<and>
   raw_of_value BR1_N_VehicleSpeed (10736762 / 32768) = 32766"
  by code_simp

text \<open>
  Claim C7 (encode atomicity): when a setter fails, the frame after the call is the frame
  before the call: identifier, length code and all payload bytes are unchanged.
\<close>

theorem Set_signal_failure_unchanged:
  assumes "\<not> fst (Set_signal s f v)"
  shows "snd (Set_signal s f v) = f"
  using assms by (simp add: Set_signal_def split: if_splits)

theorem Set_signal_failure_unchanged_witness:
  "\<not> fst (Set_EMS3_N_EngineSpeed ones_frame 16384)
   \<and> snd (Set_EMS3_N_EngineSpeed ones_frame 16384) = ones_frame"
proof -
  have h: "\<not> fst (Set_EMS3_N_EngineSpeed ones_frame 16384)" by code_simp
  from h Set_signal_failure_unchanged [OF h] show ?thesis by (intro conjI)
qed

text \<open>
  Claim C8 (identifier gating on decode): for a frame whose identifier differs from the
  message identifier of the signal, the getter fails, whatever the payload holds.
\<close>

theorem Get_signal_id_mismatch:
  assumes "id_f f \<noteq> message_id s"
  shows "\<not> fst (Get_signal s (Ptr f) value_ptr)"
  using assms by (simp add: Get_signal_def)

theorem Get_signal_id_mismatch_witness:
  "id_f (ones_frame\<lparr>id_f := 0x121\<rparr>) \<noteq> message_id EMS3_N_EngineSpeed
   \<and> \<not> fst (Get_EMS3_N_EngineSpeed (Ptr (ones_frame\<lparr>id_f := 0x121\<rparr>)) True)"
proof -
  have h: "id_f (ones_frame\<lparr>id_f := 0x121\<rparr>) \<noteq> message_id EMS3_N_EngineSpeed"
    by code_simp
  from h Get_signal_id_mismatch [OF h] show ?thesis by (intro conjI)
qed

text \<open>
  Claim C10 (setters do not inspect the frame): for every frame, whatever its identifier,
  length code and payload, a setter returns true exactly when the value lies between the
  lower and the upper bound; the range check is its only failure.
\<close>

theorem Set_signal_succeeds_iff_in_range:
  "fst (Set_signal s f v) \<longleftrightarrow> of_int (min_val s) \<le> v \<and> v \<le> lit_val (max_val s)"
  by (auto simp add: Set_signal_def out_of_range_def)

theorem Set_signal_succeeds_iff_in_range_witness:
  "fst (Set_EMS3_F_EngineSpeed ones_frame 1) \<and> fst (Set_EMS3_N_EngineSpeed zero_frame 0.5)
   \<and> of_int (min_val EMS3_N_EngineSpeed) \<le> (0.5 :: rat)
   \<and> 0.5 \<le> lit_val (max_val EMS3_N_EngineSpeed)"
proof -
  have h: "of_int (min_val EMS3_N_EngineSpeed) \<le> (0.5 :: rat)
      \<and> 0.5 \<le> lit_val (max_val EMS3_N_EngineSpeed)" by code_simp
  have h': "of_int (min_val EMS3_F_EngineSpeed) \<le> (1 :: rat)
      \<and> 1 \<le> lit_val (max_val EMS3_F_EngineSpeed)" by code_simp
  from h h' Set_signal_succeeds_iff_in_range [where s = EMS3_N_EngineSpeed and f = zero_frame and v = "0.5"]
    Set_signal_succeeds_iff_in_range [where s = EMS3_F_EngineSpeed and f = ones_frame and v = 1]
  show ?thesis by blast
qed

end
